theory Spec2Isabelle
  imports Main
begin

section \<open>Python strings\<close>

text \<open>
  Python \<open>str\<close> values are modelled as \<open>string\<close> (lists of characters). The
  model covers ASCII text: case conversion, whitespace, digits and word characters are
  the ASCII ones, and \<open>len\<close> is \<open>length\<close>.
\<close>

definition ascii_uppercase :: string where
  "ascii_uppercase = ''ABCDEFGHIJKLMNOPQRSTUVWXYZ''"

definition ascii_lowercase :: string where
  "ascii_lowercase = ''abcdefghijklmnopqrstuvwxyz''"

definition lower_char :: "char \<Rightarrow> char" where
  "lower_char c =
     (case map_of (zip ascii_uppercase ascii_lowercase) c of Some d \<Rightarrow> d | None \<Rightarrow> c)"

definition upper_char :: "char \<Rightarrow> char" where
  "upper_char c =
     (case map_of (zip ascii_lowercase ascii_uppercase) c of Some d \<Rightarrow> d | None \<Rightarrow> c)"

text \<open>\<open>s.lower()\<close> and \<open>s.upper()\<close>.\<close>

definition lower :: "string \<Rightarrow> string" where
  "lower s = map lower_char s"

definition upper :: "string \<Rightarrow> string" where
  "upper s = map upper_char s"

text \<open>\<open>s.startswith(p)\<close>, \<open>s.endswith(p)\<close> and \<open>p in s\<close>.\<close>

definition startswith :: "string \<Rightarrow> string \<Rightarrow> bool" where
  "startswith s p = (take (length p) s = p)"

definition endswith :: "string \<Rightarrow> string \<Rightarrow> bool" where
  "endswith s p = (length p \<le> length s \<and> drop (length s - length p) s = p)"

fun contains :: "string \<Rightarrow> string \<Rightarrow> bool" where
  "contains [] p = (p = [])"
| "contains (c # cs) p = (startswith (c # cs) p \<or> contains cs p)"

text \<open>\<open>s.split(c)\<close> for a one-character separator: never the empty list.\<close>

fun split :: "string \<Rightarrow> char \<Rightarrow> string list" where
  "split [] c = [[]]"
| "split (x # xs) c =
     (if x = c then [] # split xs c
      else (case split xs c of w # ws \<Rightarrow> (x # w) # ws | [] \<Rightarrow> [[x]]))"

text \<open>
  The characters \<open>str.isspace\<close> accepts, which are also those of the regular
  expression class \<open>\s\<close>: tab, newline, vertical tab, form feed, carriage return,
  the four separators 0x1C to 0x1F and the space.
\<close>

definition isspace :: "char \<Rightarrow> bool" where
  "isspace c = (c \<in> set [CHR 0x09, CHR 0x0A, CHR 0x0B, CHR 0x0C, CHR 0x0D,
                          CHR 0x1C, CHR 0x1D, CHR 0x1E, CHR 0x1F, CHR '' ''])"

definition isdigit :: "char \<Rightarrow> bool" where
  "isdigit c = (c \<in> set ''0123456789'')"

text \<open>A word character of \<open>\b\<close>: a letter, a digit or the underscore.\<close>

definition isword :: "char \<Rightarrow> bool" where
  "isword c = (c \<in> set (ascii_lowercase @ ascii_uppercase @ ''0123456789_''))"

text \<open>\<open>s.strip()\<close>.\<close>

definition strip :: "string \<Rightarrow> string" where
  "strip s = rev (dropWhile isspace (rev (dropWhile isspace s)))"

section \<open>Regular expressions\<close>

text \<open>
  The fragment of Python's \<open>re\<close> that the program's three patterns use, with the
  backtracking semantics of \<open>re.search\<close>: a match of a pattern at a position is the
  list of all ways to match, in the order the backtracking matcher tries them, and the
  search takes the first way at the leftmost position that has one. Every pattern of
  the program is compiled with \<open>re.IGNORECASE\<close>, so a literal matches without regard
  to case.
\<close>

datatype regex =
    Class "char \<Rightarrow> bool"
  | Lit string
  | Seq regex regex
  | Alt regex regex
  | Opt regex
  | Star regex
  | Group nat regex
  | WordBoundary

text \<open>\<open>r+\<close> is \<open>r\<close> followed by \<open>r*\<close>.\<close>

definition Plus :: "regex \<Rightarrow> regex" where
  "Plus r = Seq r (Star r)"

text \<open>A matcher state: the position in the text and the groups captured so far.\<close>

type_synonym mstate = "nat \<times> (nat \<times> string) list"

text \<open>
  The greedy loop of \<open>r*\<close>: try one more round of \<open>r\<close> first, then stop here. A
  round must consume a character, so the text left bounds the number of rounds.
\<close>

primrec star_loop :: "nat \<Rightarrow> (mstate \<Rightarrow> mstate list) \<Rightarrow> mstate \<Rightarrow> mstate list" where
  "star_loop 0 f st = [st]"
| "star_loop (Suc k) f st =
     concat (map (\<lambda>st'. if fst st < fst st' then star_loop k f st' else []) (f st)) @ [st]"

definition at_word_boundary :: "string \<Rightarrow> nat \<Rightarrow> bool" where
  "at_word_boundary s p =
     ((0 < p \<and> p \<le> length s \<and> isword (s ! (p - 1))) \<noteq> (p < length s \<and> isword (s ! p)))"

fun rmatch :: "regex \<Rightarrow> string \<Rightarrow> mstate \<Rightarrow> mstate list" where
  "rmatch (Class P) s (p, g) = (if p < length s \<and> P (s ! p) then [(Suc p, g)] else [])"
| "rmatch (Lit w) s (p, g) =
     (if lower (take (length w) (drop p s)) = lower w then [(p + length w, g)] else [])"
| "rmatch (Seq a b) s st = concat (map (rmatch b s) (rmatch a s st))"
| "rmatch (Alt a b) s st = rmatch a s st @ rmatch b s st"
| "rmatch (Opt a) s st = rmatch a s st @ [st]"
| "rmatch (Star a) s st = star_loop (length s - fst st) (rmatch a s) st"
| "rmatch (Group n a) s (p, g) =
     map (\<lambda>(q, g'). (q, (n, take (q - p) (drop p s)) # g')) (rmatch a s (p, g))"
| "rmatch WordBoundary s (p, g) = (if at_word_boundary s p then [(p, g)] else [])"

text \<open>
  \<open>re.search(r, s)\<close>: the start positions are tried from left to right, and the
  result is the groups of the first way to match at the first position that has one,
  or \<open>None\<close>.
\<close>

fun first_match :: "regex \<Rightarrow> string \<Rightarrow> nat list \<Rightarrow> (nat \<times> string) list option" where
  "first_match r s [] = None"
| "first_match r s (i # starts) =
     (case rmatch r s (i, []) of
        [] \<Rightarrow> first_match r s starts
      | (q, g) # ways \<Rightarrow> Some g)"

definition re_search :: "regex \<Rightarrow> string \<Rightarrow> (nat \<times> string) list option" where
  "re_search r s = first_match r s [0..<Suc (length s)]"

text \<open>\<open>m.group(n)\<close> of a group that took part in the match.\<close>

definition group :: "(nat \<times> string) list \<Rightarrow> nat \<Rightarrow> string" where
  "group g n = (case map_of g n of Some t \<Rightarrow> t | None \<Rightarrow> [])"

section \<open>Parsed documents\<close>

text \<open>
  A document as \<open>BeautifulSoup(response.content, 'html.parser')\<close> hands it to the
  program: a tree of tags (name, attributes, contents) and strings. The
  \<open>BeautifulSoup\<close> object itself is the root tag, named \<open>[document]\<close>. The parser
  gives tag and attribute names in lower case.
\<close>

datatype node =
    NavigableString string
  | Tag string "(string \<times> string) list" "node list"

text \<open>\<open>tag.get(key)\<close>: the attribute's value, or \<open>None\<close>.\<close>

fun get :: "node \<Rightarrow> string \<Rightarrow> string option" where
  "get (Tag n attrs cs) key = map_of attrs key"
| "get (NavigableString s) key = None"

fun has_name :: "node \<Rightarrow> string list \<Rightarrow> bool" where
  "has_name (Tag n attrs cs) names = (n \<in> set names)"
| "has_name (NavigableString s) names = False"

text \<open>The strings below a node, in document order.\<close>

fun all_strings :: "node \<Rightarrow> string list" where
  "all_strings (NavigableString s) = [s]"
| "all_strings (Tag n attrs cs) = concat (map all_strings cs)"

text \<open>\<open>node.get_text()\<close>: the strings below the node, joined.\<close>

definition get_text :: "node \<Rightarrow> string" where
  "get_text nd = concat (all_strings nd)"

text \<open>
  \<open>node.get_text(strip=True)\<close>: each string is stripped, the empty ones are dropped
  and the rest is joined.
\<close>

definition get_text_strip :: "node \<Rightarrow> string" where
  "get_text_strip nd = concat (filter (\<lambda>s. s \<noteq> []) (map strip (all_strings nd)))"

text \<open>
  \<open>tag.string\<close>: the only string of a tag whose contents are one string, or one tag
  of which this holds in turn; \<open>None\<close> otherwise.
\<close>

fun tag_string :: "node \<Rightarrow> string option" where
  "tag_string (NavigableString s) = Some s"
| "tag_string (Tag n attrs [c]) = tag_string c"
| "tag_string (Tag n attrs cs) = None"

text \<open>
  An element of a document is a tag together with its ancestors, the nearest first:
  what a \<open>Tag\<close> object and its \<open>parent\<close> chain are. \<open>elements\<close> lists the tags
  at and below a node in document order.
\<close>

type_synonym element = "node \<times> node list"

fun elements :: "node list \<Rightarrow> node \<Rightarrow> element list" where
  "elements anc (NavigableString s) = []"
| "elements anc (Tag n attrs cs) =
     (Tag n attrs cs, anc) # concat (map (elements (Tag n attrs cs # anc)) cs)"

text \<open>The tags of a document, in document order (\<open>soup.find_all(True)\<close>).\<close>

fun soup_elements :: "node \<Rightarrow> element list" where
  "soup_elements (Tag n attrs cs) = concat (map (elements [Tag n attrs cs]) cs)"
| "soup_elements (NavigableString s) = []"

text \<open>\<open>tag.find_parent()\<close>: the parent; for a top-level tag, the document.\<close>

fun find_parent :: "element \<Rightarrow> node option" where
  "find_parent (nd, []) = None"
| "find_parent (nd, p # anc) = Some p"

text \<open>\<open>tag.find_parent([names])\<close>: the nearest ancestor with one of the names.\<close>

definition find_parent_named :: "element \<Rightarrow> string list \<Rightarrow> node option" where
  "find_parent_named e names = find (\<lambda>p. has_name p names) (snd e)"

section \<open>Percent encoding\<close>

definition hex_value :: "char \<Rightarrow> nat option" where
  "hex_value c =
     map_of (zip ''0123456789abcdefABCDEF''
                 [0, 1, 2, 3, 4, 5, 6, 7, 8, 9, 10, 11, 12, 13, 14, 15, 10, 11, 12, 13, 14, 15]) c"

text \<open>
  \<open>urllib.parse.unquote\<close>: \<open>%XX\<close> with two hexadecimal digits is the character of
  that code; a \<open>%\<close> not followed by two hexadecimal digits stays.
\<close>

fun unquote :: "string \<Rightarrow> string" where
  "unquote (c # h # l # rest) =
     (if c = CHR ''%'' then
        (case (hex_value h, hex_value l) of
           (Some a, Some b) \<Rightarrow> char_of (16 * a + b) # unquote rest
         | _ \<Rightarrow> c # unquote (h # l # rest))
      else c # unquote (h # l # rest))"
| "unquote s = s"

definition hex_digit :: "nat \<Rightarrow> char" where
  "hex_digit n = ''0123456789ABCDEF'' ! (n mod 16)"

text \<open>
  \<open>urllib.parse.quote\<close> with its default \<open>safe='/'\<close>: letters, digits and
  \<open>_.-~/\<close> stay, every other character becomes \<open>%XX\<close>.
\<close>

definition quote :: "string \<Rightarrow> string" where
  "quote s =
     concat (map (\<lambda>c. if c \<in> set (ascii_uppercase @ ascii_lowercase @ ''0123456789_.-~/'')
                        then [c]
                        else [CHR ''%'', hex_digit (of_char c div 16), hex_digit (of_char c)]) s)"

section \<open>The network\<close>

text \<open>
  What one \<open>session.get\<close> does: it returns a response, with its status code, its
  reason phrase and its body, or it raises. The body is given as the result of
  \<open>BeautifulSoup(response.content, 'html.parser')\<close>: a document, or the text of the
  exception the parser raised. The exceptions are told apart as the program's
  \<open>except\<close> clauses tell them apart; each carries its \<open>str(e)\<close>.
\<close>

datatype fetch_outcome =
    Response nat string "string + node"
  | ConnectionError string
  | Timeout string
  | RequestException string
  | OtherException string

text \<open>
  The network as the program meets it: the outcome of each attempt to get the search
  page, by the attempt's number, and the outcome of getting a result page, by its URL.
\<close>

record env =
  search_fetch :: "nat \<Rightarrow> fetch_outcome"
  page_fetch :: "string \<Rightarrow> fetch_outcome"

text \<open>
  What the program does to the outside, in order. \<open>Sleep n\<close> is the backoff
  \<open>time.sleep((2 ** attempt) + random.uniform(0.5, 1.5))\<close> with \<open>n = 2 ** attempt\<close>;
  \<open>CourtesySleep\<close> is \<open>time.sleep(random.uniform(0.5, 1.0))\<close>; the random parts are
  not modelled. \<open>Get u\<close> is a request for the URL \<open>u\<close>.
\<close>

datatype event = Sleep nat | CourtesySleep | Get string

section \<open>find_pdf_links_on_page\<close>

definition site :: string where
  "site = ''https://www.whatdotheyknow.com''"

text \<open>The dictionary \<open>{'name': ..., 'url': ..., 'size': ...}\<close>.\<close>

record pdf_info =
  name :: string
  url :: string
  size_info :: string

text \<open>The pattern \<open>([^\s]+\.pdf)\<close>.\<close>

definition pdf_name_pattern :: regex where
  "pdf_name_pattern = Group 1 (Seq (Plus (Class (\<lambda>c. \<not> isspace c))) (Lit ''.pdf''))"

text \<open>
  The patterns \<open>(\d+(?:\.\d+)?)\s*(KB|MB|GB|K|M|G)\b\<close> and
  \<open>(\d+(?:\.\d+)?)(K|M|G)\b\<close>.
\<close>

definition size_number :: regex where
  "size_number = Seq (Plus (Class isdigit)) (Opt (Seq (Lit ''.'') (Plus (Class isdigit))))"

definition size_patterns :: "regex list" where
  "size_patterns =
     [Seq (Group 1 size_number)
        (Seq (Star (Class isspace))
          (Seq (Group 2 (Alt (Lit ''KB'') (Alt (Lit ''MB'') (Alt (Lit ''GB'')
                   (Alt (Lit ''K'') (Alt (Lit ''M'') (Lit ''G'')))))))
             WordBoundary)),
      Seq (Group 1 size_number)
        (Seq (Group 2 (Alt (Lit ''K'') (Alt (Lit ''M'') (Lit ''G''))))
           WordBoundary)]"

text \<open>The normalisation of the unit, after \<open>.upper()\<close>.\<close>

definition normalize_unit :: "string \<Rightarrow> string" where
  "normalize_unit size_unit =
     (if size_unit \<in> set [''K'', ''KB''] then ''KB''
      else if size_unit \<in> set [''M'', ''MB''] then ''MB''
      else if size_unit \<in> set [''G'', ''GB''] then ''GB''
      else size_unit)"

text \<open>
  The loop over \<open>size_patterns\<close>: the first pattern that matches the container's
  text gives the size and ends the loop; \<open>size_info\<close> keeps its initial value
  \<open>Size unknown\<close> when none matches.
\<close>

fun find_size :: "regex list \<Rightarrow> string \<Rightarrow> string" where
  "find_size [] container_text = ''Size unknown''"
| "find_size (pattern # patterns) container_text =
     (case re_search pattern container_text of
        Some size_match \<Rightarrow>
          group size_match 1 @ '' '' @ normalize_unit (upper (group size_match 2))
      | None \<Rightarrow> find_size patterns container_text)"

text \<open>
  Pattern 2's loop over \<open>url_parts\<close>: at the first part \<open>attach\<close> that has two
  parts after it, the name is the second of them, up to a \<open>?\<close>, percent-decoded.
  Without such a part the name stays empty.
\<close>

fun attach_name :: "string list \<Rightarrow> string" where
  "attach_name (part # next1 # next2 # rest) =
     (if part = ''attach'' then unquote (hd (split next2 (CHR ''?'')))
      else attach_name (next1 # next2 # rest))"
| "attach_name parts = []"

text \<open>
  The three patterns of PDF detection, tried in order on a link with the given
  \<open>href\<close>: the result is \<open>None\<close> when \<open>is_pdf\<close> stays false, and the value of
  \<open>pdf_name\<close> otherwise.
\<close>

definition detect_pdf :: "element \<Rightarrow> string \<Rightarrow> string option" where
  "detect_pdf link href =
     (let link_text = get_text_strip (fst link) in
      if endswith (lower href) ''.pdf'' then
        Some (hd (split (last (split href (CHR ''/''))) (CHR ''?'')))
      else if contains href ''/response/'' \<and> contains href ''/attach/'' \<and>
              contains href ''.pdf'' \<and> \<not> contains href ''/attach/html/'' then
        Some (attach_name (split href (CHR ''/'')))
      else if contains (lower link_text) ''download'' \<and> contains href ''.pdf'' \<and>
              \<not> contains href ''.html'' then
        Some (case find_parent_named link [''li'', ''div'', ''p'', ''td''] of
                Some container \<Rightarrow>
                  (case re_search pdf_name_pattern (get_text_strip container) of
                     Some pdf_match \<Rightarrow> group pdf_match 1
                   | None \<Rightarrow> [])
              | None \<Rightarrow> [])
      else None)"

text \<open>The absolute URL of a detected link.\<close>

definition full_pdf_url :: "string \<Rightarrow> string" where
  "full_pdf_url href =
     (if startswith href ''/'' then site @ href
      else if \<not> startswith href ''http'' then site @ ''/'' @ href
      else href)"

text \<open>The dictionary built for a detected link.\<close>

definition make_pdf_info :: "element \<Rightarrow> string \<Rightarrow> string \<Rightarrow> pdf_info" where
  "make_pdf_info link href pdf_name =
     (let link_text = get_text_strip (fst link);
          pdf_name' =
            (if pdf_name = [] then
               (if link_text \<noteq> [] \<and> contains (lower link_text) ''.pdf'' then link_text
                else ''document.pdf'')
             else pdf_name);
          size_text =
            (case find_parent_named link [''li'', ''div'', ''section'', ''article''] of
               Some container \<Rightarrow> find_size size_patterns (get_text container)
             | None \<Rightarrow> ''Size unknown'')
      in \<lparr>name = take 100 pdf_name', url = full_pdf_url href, size_info = size_text\<rparr>)"

text \<open>
  One link of the loop, up to the duplicate check: \<open>None\<close> when the link is passed
  over (an empty \<open>href\<close>, or no pattern detects a PDF).
\<close>

definition link_pdf_info :: "element \<Rightarrow> pdf_info option" where
  "link_pdf_info link =
     (case get (fst link) ''href'' of
        None \<Rightarrow> None
      | Some href \<Rightarrow>
          if href = [] then None
          else (case detect_pdf link href of
                  None \<Rightarrow> None
                | Some pdf_name \<Rightarrow> Some (make_pdf_info link href pdf_name)))"

text \<open>The duplicate check: an accepted entry has the same name or the same URL.\<close>

definition duplicate :: "pdf_info list \<Rightarrow> pdf_info \<Rightarrow> bool" where
  "duplicate pdf_links info =
     list_ex (\<lambda>existing_pdf. name existing_pdf = name info \<or> url existing_pdf = url info)
       pdf_links"

text \<open>The loop over \<open>all_links\<close>, with \<open>pdf_links\<close> as it grows.\<close>

fun collect_pdf_links :: "pdf_info list \<Rightarrow> element list \<Rightarrow> pdf_info list" where
  "collect_pdf_links pdf_links [] = pdf_links"
| "collect_pdf_links pdf_links (link # links) =
     (case link_pdf_info link of
        None \<Rightarrow> collect_pdf_links pdf_links links
      | Some info \<Rightarrow>
          if duplicate pdf_links info then collect_pdf_links pdf_links links
          else collect_pdf_links (pdf_links @ [info]) links)"

text \<open>\<open>soup.find_all('a', href=True)\<close>.\<close>

definition all_links :: "node \<Rightarrow> element list" where
  "all_links soup =
     filter (\<lambda>e. has_name (fst e) [''a''] \<and> get (fst e) ''href'' \<noteq> None) (soup_elements soup)"

text \<open>
  What the function returns for a parsed result page. The search for attachment
  sections at the start of the source (its "Method 1") fills a list that nothing reads
  afterwards, and is left out.
\<close>

definition pdf_links_of_page :: "node \<Rightarrow> pdf_info list" where
  "pdf_links_of_page soup = take 5 (collect_pdf_links [] (all_links soup))"

text \<open>
  \<open>find_pdf_links_on_page(url)\<close>: the list it returns and what it does. Every
  exception is caught and gives the empty list.
\<close>

definition find_pdf_links_on_page :: "env \<Rightarrow> string \<Rightarrow> pdf_info list \<times> event list" where
  "find_pdf_links_on_page e page_url =
     ((case page_fetch e page_url of
         Response status_code reason body \<Rightarrow>
           if status_code \<noteq> 200 then []
           else (case body of Inr soup \<Rightarrow> pdf_links_of_page soup | Inl err \<Rightarrow> [])
       | ConnectionError err \<Rightarrow> []
       | Timeout err \<Rightarrow> []
       | RequestException err \<Rightarrow> []
       | OtherException err \<Rightarrow> []),
      [CourtesySleep, Get page_url])"

section \<open>search_whatdotheyknow\<close>

text \<open>
  What the function returns: the source has \<open>return\<close> statements with four values
  and \<open>return\<close> statements with five, so the returned tuple is one or the other.
\<close>

datatype py_tuple =
    Tuple4 bool string string string
  | Tuple5 bool string string string "pdf_info list"

text \<open>
  An exception on its way to the \<open>except\<close> clauses at the end of the function, as
  they tell it apart: a \<open>requests\<close> timeout, another \<open>requests\<close> exception, or any
  other exception.
\<close>

datatype exn = TimeoutExn string | RequestExn string | OtherExn string

fun handler :: "exn \<Rightarrow> py_tuple" where
  "handler (TimeoutExn err) = Tuple5 False [] [] ''Search request timed out'' []"
| "handler (RequestExn err) = Tuple5 False [] [] (''Search request failed: '' @ err) []"
| "handler (OtherExn err) = Tuple5 False [] [] (''Search error: '' @ err) []"

text \<open>\<open>str(n)\<close> for a status code.\<close>

function show_nat :: "nat \<Rightarrow> string" where
  "show_nat n =
     (if n < 10 then [''0123456789'' ! n]
      else show_nat (n div 10) @ [''0123456789'' ! (n mod 10)])"
  by pat_completeness auto
termination
  by (relation "measure id") auto

text \<open>
  \<open>response.raise_for_status()\<close>: the text of the \<open>HTTPError\<close> it raises for a
  status from 400 to 599, and \<open>None\<close> when it returns.
\<close>

definition raise_for_status :: "nat \<Rightarrow> string \<Rightarrow> string \<Rightarrow> string option" where
  "raise_for_status status_code reason request_url =
     (if 400 \<le> status_code \<and> status_code < 500 then
        Some (show_nat status_code @ '' Client Error: '' @ reason @ '' for url: '' @ request_url)
      else if 500 \<le> status_code \<and> status_code < 600 then
        Some (show_nat status_code @ '' Server Error: '' @ reason @ '' for url: '' @ request_url)
      else None)"

definition max_retries :: nat where
  "max_retries = 3"

text \<open>
  How the retry loop ends: with a \<open>return\<close>, with \<open>break\<close> (the response's body is
  then parsed), with an exception that the loop's \<open>except\<close> clause does not catch,
  or by running out of attempts (\<open>response\<close> is then unbound).
\<close>

datatype loop_exit =
    Return py_tuple
  | Break "string + node"
  | Raise exn
  | Exhausted

text \<open>
  The loop \<open>for attempt in range(max_retries)\<close>, over the attempts still to make,
  with what it does to the outside.
\<close>

fun retry_loop :: "env \<Rightarrow> string \<Rightarrow> nat list \<Rightarrow> loop_exit \<times> event list" where
  "retry_loop e search_url [] = (Exhausted, [])"
| "retry_loop e search_url (attempt # attempts) =
     (let events = (if attempt > 0 then [Sleep (2 ^ attempt)] else []) @ [Get search_url];
          continue = (case retry_loop e search_url attempts of
                        (exit, later) \<Rightarrow> (exit, events @ later))
      in case search_fetch e attempt of
           Response status_code reason body \<Rightarrow>
             if status_code = 503 then
               (if attempt = max_retries - 1 then
                  (Return (Tuple4 False [] []
                     ''WhatDoTheyKnow.com is currently under heavy load or maintenance. Please try again in a few minutes.''),
                   events)
                else continue)
             else if status_code = 429 then
               (if attempt = max_retries - 1 then
                  (Return (Tuple4 False [] []
                     ''Rate limited by WhatDoTheyKnow.com. Please wait a moment and try again.''),
                   events)
                else continue)
             else (case raise_for_status status_code reason search_url of
                     Some err \<Rightarrow> (Raise (RequestExn err), events)
                   | None \<Rightarrow> (Break body, events))
         | ConnectionError err \<Rightarrow>
             if attempt = max_retries - 1 then
               (Return (Tuple4 False [] [] (''Connection failed: '' @ err)), events)
             else continue
         | Timeout err \<Rightarrow>
             if attempt = max_retries - 1 then
               (Return (Tuple4 False [] [] (''Connection failed: '' @ err)), events)
             else continue
         | RequestException err \<Rightarrow> (Raise (RequestExn err), events)
         | OtherException err \<Rightarrow> (Raise (OtherExn err), events))"

text \<open>
  Method 1. The heading: the first \<open>h2\<close> whose \<open>string\<close> holds \<open>FOI requests\<close> and
  \<open>of\<close>. The link: the first \<open>a\<close> after the heading, in document order, whose
  \<open>href\<close> starts with \<open>/request/\<close>.
\<close>

definition foi_requests_heading :: "element \<Rightarrow> bool" where
  "foi_requests_heading e =
     (has_name (fst e) [''h2''] \<and>
      (case tag_string (fst e) of
         Some text \<Rightarrow> text \<noteq> [] \<and> contains text ''FOI requests'' \<and> contains text ''of''
       | None \<Rightarrow> False))"

definition request_link :: "element \<Rightarrow> bool" where
  "request_link e =
     (has_name (fst e) [''a''] \<and>
      startswith (case get (fst e) ''href'' of Some href \<Rightarrow> href | None \<Rightarrow> []) ''/request/'')"

text \<open>The result a method finds: title, URL and snippet.\<close>

type_synonym found = "string \<times> string \<times> string"

definition method1_link :: "node \<Rightarrow> element option" where
  "method1_link soup =
     (case dropWhile (\<lambda>e. \<not> foi_requests_heading e) (soup_elements soup) of
        [] \<Rightarrow> None
      | foi_requests_section # following \<Rightarrow> find request_link following)"

text \<open>
  Method 1's snippet for the link found: the text of its parent, cut to 300 characters
  and followed by \<open>...\<close> when it is longer, and \<open>No description available\<close> when
  it is empty.
\<close>

definition method1_snippet :: "element \<Rightarrow> string" where
  "method1_snippet current =
     (let snippet_text =
            (case find_parent current of
               None \<Rightarrow> []
             | Some parent \<Rightarrow>
                 (let snippet_text = get_text_strip parent
                  in if length snippet_text > 300
                     then take 300 snippet_text @ ''...''
                     else snippet_text))
      in if snippet_text \<noteq> [] then snippet_text else ''No description available'')"

definition method1 :: "node \<Rightarrow> found option" where
  "method1 soup =
     (case method1_link soup of
        None \<Rightarrow> None
      | Some current \<Rightarrow>
          (let title = get_text_strip (fst current);
               relative_url = (case get (fst current) ''href'' of
                                 Some href \<Rightarrow> href | None \<Rightarrow> []);
               full_url = site @ relative_url
           in Some (title, full_url, method1_snippet current)))"

text \<open>
  Method 2: the first \<open>a\<close> of the document whose \<open>href\<close> holds \<open>/request/\<close> and
  does not start with \<open>javascript\<close>.
\<close>

definition fallback_link :: "element \<Rightarrow> bool" where
  "fallback_link e =
     (has_name (fst e) [''a''] \<and>
      (case get (fst e) ''href'' of
         Some href \<Rightarrow>
           href \<noteq> [] \<and> contains href ''/request/'' \<and> \<not> startswith href ''javascript''
       | None \<Rightarrow> False))"

definition method2_link :: "node \<Rightarrow> element option" where
  "method2_link soup =
     (case filter fallback_link (soup_elements soup) of
        [] \<Rightarrow> None
      | first_link # request_links \<Rightarrow> Some first_link)"

text \<open>
  Method 2's snippet for the link found: the first 300 characters of the text of its
  nearest \<open>div\<close>, \<open>article\<close>, \<open>section\<close> or \<open>p\<close>, followed by \<open>...\<close>; and
  \<open>FOI request found\<close> when it has no such ancestor.
\<close>

definition method2_snippet :: "element \<Rightarrow> string" where
  "method2_snippet first_link =
     (let snippet =
            (case find_parent_named first_link [''div'', ''article'', ''section'', ''p''] of
               None \<Rightarrow> []
             | Some container \<Rightarrow> take 300 (get_text_strip container) @ ''...'')
      in if snippet \<noteq> [] then snippet else ''FOI request found'')"

definition method2 :: "node \<Rightarrow> found option" where
  "method2 soup =
     (case method2_link soup of
        None \<Rightarrow> None
      | Some first_link \<Rightarrow>
          (let title = get_text_strip (fst first_link);
               relative_url = (case get (fst first_link) ''href'' of
                                 Some href \<Rightarrow> href | None \<Rightarrow> []);
               full_url = site @ relative_url
           in Some (title, full_url, method2_snippet first_link)))"

text \<open>Method 3: the message when neither method finds a link.\<close>

definition method3 :: "node \<Rightarrow> string \<Rightarrow> string" where
  "method3 soup query =
     (case find (\<lambda>e. has_name (fst e) [''title'']) (soup_elements soup) of
        Some page_title \<Rightarrow>
          if contains (lower (get_text_strip (fst page_title))) ''search'' then
            ''Search completed but no results found for '' @ [CHR 0x27] @ query @
            [CHR 0x27] @ ''. Try different keywords.''
          else ''No search results found or page could not be parsed''
      | None \<Rightarrow> ''No search results found or page could not be parsed'')"

text \<open>The function after the retry loop, on the body of the response.\<close>

definition parse_and_extract :: "env \<Rightarrow> string \<Rightarrow> string + node \<Rightarrow> py_tuple \<times> event list" where
  "parse_and_extract e query body =
     (case body of
        Inl err \<Rightarrow> (handler (OtherExn err), [])
      | Inr soup \<Rightarrow>
          (case method1 soup of
             Some (title, full_url, snippet) \<Rightarrow>
               (case find_pdf_links_on_page e full_url of
                  (pdf_links, events) \<Rightarrow> (Tuple5 True title full_url snippet pdf_links, events))
           | None \<Rightarrow>
               (case method2 soup of
                  Some (title, full_url, snippet) \<Rightarrow>
                    (case find_pdf_links_on_page e full_url of
                       (pdf_links, events) \<Rightarrow>
                         (Tuple5 True title full_url snippet pdf_links, events))
                | None \<Rightarrow> (Tuple5 False [] [] (method3 soup query) [], []))))"

text \<open>
  \<open>search_whatdotheyknow(query)\<close>: the tuple it returns and what it does to the
  outside. When the loop runs out of attempts, reading \<open>response\<close> raises an
  \<open>UnboundLocalError\<close>, which the last \<open>except\<close> clause catches.
\<close>

definition search_page_url :: "string \<Rightarrow> string" where
  "search_page_url query = ''https://www.whatdotheyknow.com/search/'' @ quote query"

definition search_whatdotheyknow :: "env \<Rightarrow> string \<Rightarrow> py_tuple \<times> event list" where
  "search_whatdotheyknow e query =
     (let search_url = search_page_url query
      in case retry_loop e search_url [0..<max_retries] of
           (Return result, events) \<Rightarrow> (result, events)
         | (Raise ex, events) \<Rightarrow> (handler ex, events)
         | (Exhausted, events) \<Rightarrow>
             (handler (OtherExn
                ''cannot access local variable 'response' where it is not associated with a value''),
              events)
         | (Break body, events) \<Rightarrow>
             (case parse_and_extract e query body of (result, later) \<Rightarrow> (result, events @ later)))"

section \<open>search_command\<close>

text \<open>
  The fields the command adds to its embed, by kind: the link to the request, the list
  of PDFs and their download links (both of the first three entries), and the note on
  the number of PDFs found. The wording of the fields is not modelled.
\<close>

datatype field =
    LinkField string
  | AvailablePDFs "pdf_info list"
  | DirectDownloadLinks "pdf_info list"
  | Note nat

record embed =
  embed_title :: string
  embed_url :: string
  description :: string
  embed_fields :: "field list"

text \<open>What the command ends with: the message it sends or the edit it makes.\<close>

datatype reply =
    Usage
  | SearchResults string embed
  | SearchFailed string
  | UnexpectedError string

text \<open>
  \<open>search_command(ctx, query)\<close>. Unpacking a tuple of four values into five names
  raises a \<open>ValueError\<close>, which the command's \<open>except\<close> clause reports.
\<close>

definition search_command :: "env \<Rightarrow> string option \<Rightarrow> reply" where
  "search_command e query =
     (case query of
        None \<Rightarrow> Usage
      | Some q \<Rightarrow>
          if q = [] then Usage
          else (case fst (search_whatdotheyknow e q) of
                  Tuple4 success title result_url snippet \<Rightarrow>
                    UnexpectedError ''not enough values to unpack (expected 5, got 4)''
                | Tuple5 success title result_url snippet pdf_links \<Rightarrow>
                    if success then
                      SearchResults q
                        \<lparr>embed_title = take 256 title,
                         embed_url = result_url,
                         description = take 4096 snippet,
                         embed_fields =
                           [LinkField result_url] @
                           (if pdf_links \<noteq> [] then
                              [AvailablePDFs (take 3 pdf_links),
                               DirectDownloadLinks (take 3 pdf_links)] @
                              (if length pdf_links > 10 then [Note (length pdf_links)] else [])
                            else [])\<rparr>
                    else SearchFailed snippet))"

section \<open>Definitions for the statements\<close>

text \<open>
  The qualifying links of a result page, in document order: the dictionaries the loop
  builds for the links in which it detects a PDF, before the duplicate check.
\<close>

definition candidates :: "node \<Rightarrow> pdf_info list" where
  "candidates soup = List.map_filter link_pdf_info (all_links soup)"

text \<open>
  The attachment loop in the specification's words: "before appending a new
  Attachment, scan previously accepted attachments for an exact match on name OR url;
  skip if either matches. Stop accepting once 5 attachments have been collected". This
  definition follows the specification, not the source, and is compared with
  \<open>pdf_links_of_page\<close> below.
\<close>

fun collect_first_five :: "pdf_info list \<Rightarrow> element list \<Rightarrow> pdf_info list" where
  "collect_first_five accepted [] = accepted"
| "collect_first_five accepted (link # links) =
     (if length accepted \<ge> 5 then accepted
      else (case link_pdf_info link of
              None \<Rightarrow> collect_first_five accepted links
            | Some info \<Rightarrow>
                if duplicate accepted info then collect_first_five accepted links
                else collect_first_five (accepted @ [info]) links))"

text \<open>Whether a reply of the command carries the note on the number of PDFs.\<close>

fun shows_note :: "reply \<Rightarrow> bool" where
  "shows_note (SearchResults q em) =
     list_ex (\<lambda>f. case f of Note n \<Rightarrow> True | _ \<Rightarrow> False) (embed_fields em)"
| "shows_note other = False"

text \<open>
  The result-locating phase on a parsed search page: Method 1, and Method 2 when
  Method 1 finds nothing, as \<open>search_whatdotheyknow\<close> tries them.
\<close>

definition locate_result :: "node \<Rightarrow> found option" where
  "locate_result soup = (case method1 soup of Some result \<Rightarrow> Some result | None \<Rightarrow> method2 soup)"

text \<open>
  The fetch of a result page fails: the status is not 200, or the fetch or the parser
  raises an exception.
\<close>

fun page_fetch_fails :: "fetch_outcome \<Rightarrow> bool" where
  "page_fetch_fails (Response status_code reason (Inr soup)) = (status_code \<noteq> 200)"
| "page_fetch_fails other = True"

text \<open>A text mentions a phrase: it holds the phrase, without regard to case.\<close>

definition mentions :: "string \<Rightarrow> string \<Rightarrow> bool" where
  "mentions text phrase = contains (lower text) (lower phrase)"

text \<open>The requests among the things done to the outside.\<close>

fun is_request :: "event \<Rightarrow> bool" where
  "is_request (Get request_url) = True"
| "is_request other = False"

text \<open>
  A URL starts with a scheme: a letter, then letters, digits, \<open>+\<close>, \<open>-\<close> or \<open>.\<close>,
  up to a colon.
\<close>

definition starts_with_scheme :: "string \<Rightarrow> bool" where
  "starts_with_scheme u =
     (let scheme = takeWhile (\<lambda>c. c \<noteq> CHR '':'') u
      in scheme \<noteq> [] \<and> length scheme < length u \<and>
         hd scheme \<in> set (ascii_lowercase @ ascii_uppercase) \<and>
         list_all (\<lambda>c. c \<in> set (ascii_lowercase @ ascii_uppercase @ ''0123456789+-.'')) scheme)"

section \<open>Example documents\<close>

definition pdf_anchor :: "string \<Rightarrow> node" where
  "pdf_anchor file = Tag ''a'' [(''href'', ''/files/'' @ file)] [NavigableString file]"

text \<open>A result page with seven PDF links, each in a list item of its own.\<close>

definition seven_pdf_page :: node where
  "seven_pdf_page =
     Tag ''[document]'' []
       [Tag ''ul'' []
          (map (\<lambda>file. Tag ''li'' [] [pdf_anchor file])
             [''a.pdf'', ''b.pdf'', ''c.pdf'', ''d.pdf'', ''e.pdf'', ''f.pdf'', ''g.pdf''])]"

text \<open>
  A result page with two download links of the same \<open>href\<close>, each in a list item
  that names a different file; and its two links as elements, with their ancestors.
\<close>

definition download_item :: "string \<Rightarrow> node" where
  "download_item file =
     Tag ''li'' []
       [NavigableString (file @ '' ''),
        Tag ''a'' [(''href'', ''/files/get.pdf?id=3'')] [NavigableString ''Download'']]"

definition same_url_page :: node where
  "same_url_page =
     Tag ''[document]'' []
       [Tag ''ul'' [] [download_item ''one.pdf'', download_item ''two.pdf'']]"

definition same_url_first :: element where
  "same_url_first =
     (Tag ''a'' [(''href'', ''/files/get.pdf?id=3'')] [NavigableString ''Download''],
      [download_item ''one.pdf'',
       Tag ''ul'' [] [download_item ''one.pdf'', download_item ''two.pdf''],
       same_url_page])"

definition same_url_second :: element where
  "same_url_second =
     (Tag ''a'' [(''href'', ''/files/get.pdf?id=3'')] [NavigableString ''Download''],
      [download_item ''two.pdf'',
       Tag ''ul'' [] [download_item ''one.pdf'', download_item ''two.pdf''],
       same_url_page])"

text \<open>
  A search page with the heading of the results and a link to a request after it; the
  network that serves it at every attempt, with a result page of seven PDF links, with
  a result page that is not found, and with a result page whose fetch times out.
\<close>

definition search_results_page :: node where
  "search_results_page =
     Tag ''[document]'' []
       [Tag ''h2'' [] [NavigableString ''14 FOI requests of Cambridge found''],
        Tag ''div'' []
          [Tag ''a'' [(''href'', ''/request/foo'')] [NavigableString ''My FOI Request''],
           NavigableString '' to Cambridge '']]"

definition seven_pdf_env :: env where
  "seven_pdf_env =
     \<lparr>search_fetch = (\<lambda>attempt. Response 200 ''OK'' (Inr search_results_page)),
      page_fetch = (\<lambda>page_url. Response 200 ''OK'' (Inr seven_pdf_page))\<rparr>"

definition not_found_env :: env where
  "not_found_env =
     \<lparr>search_fetch = (\<lambda>attempt. Response 200 ''OK'' (Inr search_results_page)),
      page_fetch = (\<lambda>page_url. Response 404 ''Not Found'' (Inr (Tag ''[document]'' [] [])))\<rparr>"

definition page_timeout_env :: env where
  "page_timeout_env =
     \<lparr>search_fetch = (\<lambda>attempt. Response 200 ''OK'' (Inr search_results_page)),
      page_fetch = (\<lambda>page_url. Timeout ''Read timed out.'')\<rparr>"

text \<open>
  A result page with a PDF attachment and its rendering as HTML, in this order; and its
  two links as elements, with their ancestors.
\<close>

definition report_item :: node where
  "report_item =
     Tag ''div'' []
       [Tag ''a'' [(''href'', ''/response/1/attach/2/report.pdf'')] [NavigableString ''report.pdf''],
        NavigableString '' 175K '',
        Tag ''a'' [(''href'', ''/response/1/attach/html/2/report.pdf'')]
          [NavigableString ''View as HTML'']]"

definition report_page :: node where
  "report_page = Tag ''[document]'' [] [report_item]"

definition report_first :: element where
  "report_first =
     (Tag ''a'' [(''href'', ''/response/1/attach/2/report.pdf'')] [NavigableString ''report.pdf''],
      [report_item, report_page])"

definition report_second :: element where
  "report_second =
     (Tag ''a'' [(''href'', ''/response/1/attach/html/2/report.pdf'')]
        [NavigableString ''View as HTML''],
      [report_item, report_page])"

text \<open>
  A network whose search page answers every attempt with the status 503; one that
  answers with 429; and one whose every attempt times out.
\<close>

definition busy_env :: env where
  "busy_env =
     \<lparr>search_fetch = (\<lambda>attempt. Response 503 ''Service Unavailable'' (Inr (Tag ''[document]'' [] []))),
      page_fetch = (\<lambda>page_url. Response 200 ''OK'' (Inr seven_pdf_page))\<rparr>"

definition rate_limited_env :: env where
  "rate_limited_env =
     \<lparr>search_fetch = (\<lambda>attempt. Response 429 ''Too Many Requests'' (Inr (Tag ''[document]'' [] []))),
      page_fetch = (\<lambda>page_url. Response 200 ''OK'' (Inr seven_pdf_page))\<rparr>"

definition timeout_env :: env where
  "timeout_env =
     \<lparr>search_fetch = (\<lambda>attempt. Timeout ''Read timed out.''),
      page_fetch = (\<lambda>page_url. Response 200 ''OK'' (Inr seven_pdf_page))\<rparr>"

text \<open>
  A search page whose request link has a text of 301 characters; a search page with no
  heading whose request link stands in a paragraph of three characters; one whose
  request link stands in a \<open>div\<close> with no text; and one whose request link has no
  container. With them, the links the methods find, as elements.
\<close>

definition long_link :: node where
  "long_link = Tag ''a'' [(''href'', ''/request/foo'')] [NavigableString (replicate 301 (CHR ''a''))]"

definition long_page :: node where
  "long_page =
     Tag ''[document]'' []
       [Tag ''h2'' [] [NavigableString ''14 FOI requests of Cambridge found''],
        Tag ''div'' [] [long_link]]"

definition long_current :: element where
  "long_current = (long_link, [Tag ''div'' [] [long_link], long_page])"

definition short_current :: element where
  "short_current =
     (Tag ''a'' [(''href'', ''/request/foo'')] [NavigableString ''My FOI Request''],
      [Tag ''div'' []
         [Tag ''a'' [(''href'', ''/request/foo'')] [NavigableString ''My FOI Request''],
          NavigableString '' to Cambridge ''],
       search_results_page])"

definition short_fallback_page :: node where
  "short_fallback_page =
     Tag ''[document]'' []
       [Tag ''p'' [] [Tag ''a'' [(''href'', ''/request/bar'')] [NavigableString ''Bar'']]]"

definition empty_fallback_page :: node where
  "empty_fallback_page =
     Tag ''[document]'' [] [Tag ''div'' [] [Tag ''a'' [(''href'', ''/request/bar'')] []]]"

definition bare_fallback_page :: node where
  "bare_fallback_page =
     Tag ''[document]'' [] [Tag ''a'' [(''href'', ''/request/bar'')] [NavigableString ''Bar'']]"

definition bare_first_link :: element where
  "bare_first_link =
     (Tag ''a'' [(''href'', ''/request/bar'')] [NavigableString ''Bar''], [bare_fallback_page])"

text \<open>
  A result page with a link to a PDF by a relative path that starts with \<open>http\<close>; and
  the network that serves it.
\<close>

definition relative_http_page :: node where
  "relative_http_page =
     Tag ''[document]'' []
       [Tag ''a'' [(''href'', ''httpdocs/report.pdf'')] [NavigableString ''Report'']]"

definition relative_http_env :: env where
  "relative_http_env =
     \<lparr>search_fetch = (\<lambda>attempt. Response 200 ''OK'' (Inr search_results_page)),
      page_fetch = (\<lambda>page_url. Response 200 ''OK'' (Inr relative_http_page))\<rparr>"

text \<open>An element in a list item whose text is a size, and one in a list item without.\<close>

definition sized_link :: element where
  "sized_link =
     (Tag ''a'' [(''href'', ''/files/a.pdf'')] [],
      [Tag ''li'' [] [Tag ''a'' [(''href'', ''/files/a.pdf'')] [], NavigableString ''175K'']])"

definition unsized_link :: element where
  "unsized_link =
     (Tag ''a'' [(''href'', ''/files/a.pdf'')] [NavigableString ''Minutes''],
      [Tag ''li'' [] [Tag ''a'' [(''href'', ''/files/a.pdf'')] [NavigableString ''Minutes'']]])"

section \<open>Strings\<close>

lemma split_nonempty: "split s c \<noteq> []"
  by (induction s) (auto split: list.split)

section \<open>The attachment loop\<close>

lemma collect_pdf_links_extends:
  "\<exists>more. collect_pdf_links pdf_links links = pdf_links @ more"
proof (induction links arbitrary: pdf_links)
  case Nil
  show ?case by simp
next
  case (Cons link links)
  show ?case
  proof (cases "link_pdf_info link")
    case None
    with Cons show ?thesis by simp
  next
    case (Some info)
    show ?thesis
    proof (cases "duplicate pdf_links info")
      case True
      with Some Cons show ?thesis by simp
    next
      case False
      from Cons[of "pdf_links @ [info]"] obtain more
        where "collect_pdf_links (pdf_links @ [info]) links = (pdf_links @ [info]) @ more"
        by blast
      with Some False show ?thesis by simp
    qed
  qed
qed

lemma duplicate_iff:
  "duplicate pdf_links info \<longleftrightarrow>
     name info \<in> set (map name pdf_links) \<or> url info \<in> set (map url pdf_links)"
  unfolding duplicate_def list_ex_iff set_map image_iff by metis

lemma collect_pdf_links_distinct:
  "distinct (map name pdf_links) \<Longrightarrow> distinct (map url pdf_links) \<Longrightarrow>
   distinct (map name (collect_pdf_links pdf_links links)) \<and>
   distinct (map url (collect_pdf_links pdf_links links))"
proof (induction links arbitrary: pdf_links)
  case Nil
  then show ?case by simp
next
  case (Cons link links)
  show ?case
  proof (cases "link_pdf_info link")
    case None
    with Cons show ?thesis by simp
  next
    case (Some info)
    show ?thesis
    proof (cases "duplicate pdf_links info")
      case True
      with Some Cons show ?thesis by simp
    next
      case False
      then have "distinct (map name (pdf_links @ [info]))" "distinct (map url (pdf_links @ [info]))"
        using Cons.prems by (auto simp: duplicate_iff)
      from Cons.IH[OF this] Some False show ?thesis by simp
    qed
  qed
qed

lemma collect_first_five_take:
  "length accepted \<le> 5 \<Longrightarrow>
   collect_first_five accepted links = take 5 (collect_pdf_links accepted links)"
proof (induction links arbitrary: accepted)
  case Nil
  then show ?case by simp
next
  case (Cons link links)
  show ?case
  proof (cases "length accepted \<ge> 5")
    case True
    obtain more where "collect_pdf_links accepted (link # links) = accepted @ more"
      using collect_pdf_links_extends by blast
    with True Cons.prems show ?thesis by simp
  next
    case False
    then have short: "length (accepted @ [x]) \<le> 5" for x by simp
    show ?thesis
      using False Cons.IH[OF Cons.prems] Cons.IH[OF short]
      by (simp split: option.split)
  qed
qed

lemma collect_pdf_links_all_distinct:
  "distinct (map name (pdf_links @ List.map_filter link_pdf_info links)) \<Longrightarrow>
   distinct (map url (pdf_links @ List.map_filter link_pdf_info links)) \<Longrightarrow>
   collect_pdf_links pdf_links links = pdf_links @ List.map_filter link_pdf_info links"
proof (induction links arbitrary: pdf_links)
  case Nil
  then show ?case by simp
next
  case (Cons link links)
  show ?case
  proof (cases "link_pdf_info link")
    case None
    with Cons show ?thesis by simp
  next
    case (Some info)
    from Cons.prems Some have fresh: "\<not> duplicate pdf_links info"
      by (auto simp: duplicate_iff)
    from Cons.prems Some
    have "collect_pdf_links (pdf_links @ [info]) links =
            (pdf_links @ [info]) @ List.map_filter link_pdf_info links"
      by (intro Cons.IH) simp_all
    with Some fresh show ?thesis by simp
  qed
qed

lemma find_pdf_links_on_page_fetched:
  "page_fetch e page_url = Response 200 reason (Inr soup) \<Longrightarrow>
   fst (find_pdf_links_on_page e page_url) = pdf_links_of_page soup"
  by (simp add: find_pdf_links_on_page_def)

lemma find_pdf_links_on_page_cases:
  "fst (find_pdf_links_on_page e page_url) = [] \<or>
   (\<exists>reason soup. page_fetch e page_url = Response 200 reason (Inr soup) \<and>
      fst (find_pdf_links_on_page e page_url) = pdf_links_of_page soup)"
  by (simp add: find_pdf_links_on_page_def split: fetch_outcome.split sum.split)

lemma find_pdf_links_on_page_length: "length (fst (find_pdf_links_on_page e page_url)) \<le> 5"
  by (simp add: find_pdf_links_on_page_def pdf_links_of_page_def
      split: fetch_outcome.split sum.split)

lemma seven_candidates:
  "candidates seven_pdf_page =
     map (\<lambda>file. \<lparr>name = file, url = site @ ''/files/'' @ file, size_info = ''Size unknown''\<rparr>)
       [''a.pdf'', ''b.pdf'', ''c.pdf'', ''d.pdf'', ''e.pdf'', ''f.pdf'', ''g.pdf'']"
  by code_simp

section \<open>The retry loop\<close>

lemma retry_loop_Return:
  "retry_loop e request_url attempts = (Return result, events) \<Longrightarrow>
   \<exists>reason. result = Tuple4 False [] [] reason"
proof (induction attempts arbitrary: events)
  case Nil
  then show ?case by simp
next
  case (Cons attempt attempts)
  obtain exit later where rest: "retry_loop e request_url attempts = (exit, later)"
    by (cases "retry_loop e request_url attempts")
  from Cons.prems rest have "exit = Return result \<or> (\<exists>reason. result = Tuple4 False [] [] reason)"
    by (auto simp: Let_def split: fetch_outcome.splits if_splits option.splits)
  with Cons.IH rest show ?case by auto
qed

text \<open>
  The loop over \<open>range(max_retries)\<close> never runs out of attempts: its last round
  returns, breaks or raises, so \<open>response\<close> is bound after the loop. And no timeout
  leaves the loop as an exception: the loop's \<open>except\<close> clause catches every one.
\<close>

lemma retry_loop_not_Exhausted:
  "attempts \<noteq> [] \<Longrightarrow> last attempts = max_retries - 1 \<Longrightarrow>
   fst (retry_loop e request_url attempts) \<noteq> Exhausted"
proof (induction attempts)
  case Nil
  then show ?case by simp
next
  case (Cons attempt attempts)
  show ?case
  proof (cases "attempts = []")
    case True
    with Cons.prems have "attempt = max_retries - 1" by simp
    then show ?thesis
      by (cases "search_fetch e attempt")
         (simp_all add: Let_def split: option.split)
  next
    case False
    with Cons have "fst (retry_loop e request_url attempts) \<noteq> Exhausted"
      by simp
    then show ?thesis
      by (cases "search_fetch e attempt")
         (simp_all add: Let_def case_prod_beta split: option.split)
  qed
qed

lemma search_loop_not_Exhausted:
  "fst (retry_loop e request_url [0..<max_retries]) \<noteq> Exhausted"
  by (rule retry_loop_not_Exhausted) (simp_all add: max_retries_def)

lemma retry_loop_no_timeout:
  "fst (retry_loop e request_url attempts) \<noteq> Raise (TimeoutExn err)"
proof (induction attempts)
  case Nil
  show ?case by simp
next
  case (Cons attempt attempts)
  then show ?case
    by (cases "search_fetch e attempt")
       (simp_all add: Let_def case_prod_beta split: option.split)
qed

section \<open>The first five attachments\<close>

text \<open>
  C5. \<open>find_pdf_links_on_page\<close> returns at most five entries, whatever the network
  does. For every result page, the attachment list has at most five entries. It is the
  list the specification's loop gives, which stops accepting at five. When the
  qualifying links are pairwise distinct in name and in URL, it is the first five of
  them in document order, and has exactly five entries when there are more than five.
\<close>

theorem first_five_in_document_order:
  "length (fst (find_pdf_links_on_page e page_url)) \<le> 5 \<and>
   length (pdf_links_of_page soup) \<le> 5 \<and>
   pdf_links_of_page soup = collect_first_five [] (all_links soup) \<and>
   (distinct (map name (candidates soup)) \<and> distinct (map url (candidates soup)) \<longrightarrow>
      pdf_links_of_page soup = take 5 (candidates soup)) \<and>
   (distinct (map name (candidates soup)) \<and> distinct (map url (candidates soup)) \<and>
    length (candidates soup) > 5 \<longrightarrow>
      length (pdf_links_of_page soup) = 5)"
proof -
  have cap: "length (pdf_links_of_page soup) \<le> 5"
    by (simp add: pdf_links_of_page_def)
  have stop: "pdf_links_of_page soup = collect_first_five [] (all_links soup)"
    by (simp add: pdf_links_of_page_def collect_first_five_take)
  have first: "pdf_links_of_page soup = take 5 (candidates soup)"
    if "distinct (map name (candidates soup))" "distinct (map url (candidates soup))"
    using that collect_pdf_links_all_distinct[of "[]" "all_links soup"]
    by (simp add: pdf_links_of_page_def candidates_def)
  from cap stop first find_pdf_links_on_page_length[of e page_url] show ?thesis by auto
qed

theorem first_five_in_document_order_witness:
  "distinct (map name (candidates seven_pdf_page)) \<and>
   distinct (map url (candidates seven_pdf_page)) \<and>
   length (candidates seven_pdf_page) = 7 \<and>
   length (pdf_links_of_page seven_pdf_page) = 5 \<and>
   map name (pdf_links_of_page seven_pdf_page) =
     [''a.pdf'', ''b.pdf'', ''c.pdf'', ''d.pdf'', ''e.pdf'']"
proof -
  have given:
    "distinct (map name (candidates seven_pdf_page)) \<and>
     distinct (map url (candidates seven_pdf_page))"
    by (simp add: seven_candidates site_def)
  with first_five_in_document_order[of seven_pdf_env "[]" seven_pdf_page]
  have "pdf_links_of_page seven_pdf_page = take 5 (candidates seven_pdf_page)"
    by blast
  with given show ?thesis
    by (simp add: seven_candidates)
qed

text \<open>
  C7. The list \<open>find_pdf_links_on_page\<close> returns, and the attachment list of every
  result page, is pairwise distinct in name and in URL: the loop passes over a link
  whose name or whose URL is that of an entry already accepted. In particular, when the
  links of a page are two links in which a PDF is detected and whose absolute URLs are
  equal, the list holds the first only, whatever their texts.
\<close>

theorem attachments_distinct:
  "distinct (map name (fst (find_pdf_links_on_page e page_url))) \<and>
   distinct (map url (fst (find_pdf_links_on_page e page_url))) \<and>
   distinct (map name (pdf_links_of_page soup)) \<and>
   distinct (map url (pdf_links_of_page soup)) \<and>
   (\<forall>accepted link links info.
      link_pdf_info link = Some info \<and>
      (name info \<in> set (map name accepted) \<or> url info \<in> set (map url accepted)) \<longrightarrow>
      collect_pdf_links accepted (link # links) = collect_pdf_links accepted links) \<and>
   (\<forall>first second info1 info2.
      all_links soup = [first, second] \<and>
      link_pdf_info first = Some info1 \<and> link_pdf_info second = Some info2 \<and>
      url info1 = url info2 \<longrightarrow>
      pdf_links_of_page soup = [info1])"
proof -
  have pairwise:
    "distinct (map name (pdf_links_of_page page)) \<and> distinct (map url (pdf_links_of_page page))"
    for page
  proof -
    have "distinct (map name (collect_pdf_links [] (all_links page))) \<and>
          distinct (map url (collect_pdf_links [] (all_links page)))"
      by (rule collect_pdf_links_distinct) simp_all
    then show ?thesis
      by (simp add: pdf_links_of_page_def take_map[symmetric])
  qed
  have returned:
    "distinct (map name (fst (find_pdf_links_on_page e page_url))) \<and>
     distinct (map url (fst (find_pdf_links_on_page e page_url)))"
    using find_pdf_links_on_page_cases[of e page_url] pairwise by auto
  have skipped:
    "collect_pdf_links accepted (link # links) = collect_pdf_links accepted links"
    if "link_pdf_info link = Some info"
      and "name info \<in> set (map name accepted) \<or> url info \<in> set (map url accepted)"
    for accepted link links info
    using that by (simp add: duplicate_iff)
  have same_url: "pdf_links_of_page soup = [info1]"
    if "all_links soup = [first, second]"
      and "link_pdf_info first = Some info1" and "link_pdf_info second = Some info2"
      and "url info1 = url info2"
    for first second info1 info2
    using that by (simp add: pdf_links_of_page_def duplicate_def)
  from returned pairwise[of soup] skipped same_url show ?thesis
    by blast
qed

theorem attachments_distinct_witness:
  "all_links same_url_page = [same_url_first, same_url_second] \<and>
   map name (candidates same_url_page) = [''one.pdf'', ''two.pdf''] \<and>
   map url (candidates same_url_page) =
     [''https://www.whatdotheyknow.com/files/get.pdf?id=3'',
      ''https://www.whatdotheyknow.com/files/get.pdf?id=3''] \<and>
   pdf_links_of_page same_url_page =
     [\<lparr>name = ''one.pdf'',
       url = ''https://www.whatdotheyknow.com/files/get.pdf?id=3'',
       size_info = ''Size unknown''\<rparr>]"
proof -
  have links: "all_links same_url_page = [same_url_first, same_url_second]"
    by code_simp
  have first:
    "link_pdf_info same_url_first =
       Some \<lparr>name = ''one.pdf'',
             url = ''https://www.whatdotheyknow.com/files/get.pdf?id=3'',
             size_info = ''Size unknown''\<rparr>"
    by code_simp
  have second:
    "link_pdf_info same_url_second =
       Some \<lparr>name = ''two.pdf'',
             url = ''https://www.whatdotheyknow.com/files/get.pdf?id=3'',
             size_info = ''Size unknown''\<rparr>"
    by code_simp
  have step: "pdf_links_of_page same_url_page = [info1]"
    if "link_pdf_info same_url_first = Some info1"
      and "link_pdf_info same_url_second = Some info2" and "url info1 = url info2"
    for info1 info2
    using attachments_distinct[of seven_pdf_env "[]" same_url_page] links that by blast
  from step[OF first second]
  have "pdf_links_of_page same_url_page =
          [\<lparr>name = ''one.pdf'',
            url = ''https://www.whatdotheyknow.com/files/get.pdf?id=3'',
            size_info = ''Size unknown''\<rparr>]"
    by simp
  with links first second show ?thesis
    by (simp add: candidates_def)
qed

section \<open>The shape of the result\<close>

lemma handler_pdf_links:
  "handler ex = Tuple5 success title u snippet pdf_links \<Longrightarrow> pdf_links = []"
  by (cases ex) auto

lemma parse_and_extract_pdf_links:
  "fst (parse_and_extract e query body) = Tuple5 success title u snippet pdf_links \<Longrightarrow>
   length pdf_links \<le> 5"
  using find_pdf_links_on_page_length
  by (auto simp: parse_and_extract_def case_prod_beta dest: handler_pdf_links
      split: sum.splits option.splits)

lemma search_pdf_links:
  assumes "fst (search_whatdotheyknow e query) = Tuple5 success title u snippet pdf_links"
  shows "length pdf_links \<le> 5"
proof -
  obtain exit events where loop:
    "retry_loop e (search_page_url query) [0..<max_retries] = (exit, events)"
    by (cases "retry_loop e (search_page_url query) [0..<max_retries]")
  show ?thesis
  proof (cases exit)
    case (Return result)
    with loop retry_loop_Return obtain reason where "result = Tuple4 False [] [] reason"
      by blast
    with assms loop Return show ?thesis
      by (simp add: search_whatdotheyknow_def)
  next
    case (Break body)
    with assms loop show ?thesis
      using parse_and_extract_pdf_links[of e query body]
      by (simp add: search_whatdotheyknow_def case_prod_beta)
  next
    case (Raise ex)
    with assms loop show ?thesis
      by (auto simp: search_whatdotheyknow_def dest: handler_pdf_links)
  next
    case Exhausted
    with assms loop show ?thesis
      by (simp add: search_whatdotheyknow_def)
  qed
qed

text \<open>
  C10. Whatever the network does and whatever the query, a five-valued result of
  \<open>search_whatdotheyknow\<close> carries at most five PDF entries, so the command's test
  \<open>len(pdf_links) > 10\<close> is false whenever it is reached, and no reply of the command
  carries the note.
\<close>

theorem note_never_shown:
  "(\<forall>success title u snippet pdf_links.
      fst (search_whatdotheyknow e q) = Tuple5 success title u snippet pdf_links \<longrightarrow>
      length pdf_links \<le> 5 \<and> \<not> length pdf_links > 10) \<and>
   \<not> shows_note (search_command e query)"
proof -
  have cap: "length pdf_links \<le> 5 \<and> \<not> length pdf_links > 10"
    if "fst (search_whatdotheyknow e' q') = Tuple5 success title u snippet pdf_links"
    for e' q' success title u snippet pdf_links
    using search_pdf_links[OF that] by simp
  have "\<not> shows_note (search_command e query)"
  proof (cases query)
    case None
    then show ?thesis by (simp add: search_command_def)
  next
    case (Some q')
    show ?thesis
    proof (cases "fst (search_whatdotheyknow e q')")
      case (Tuple4 success title u snippet)
      with Some show ?thesis by (simp add: search_command_def)
    next
      case (Tuple5 success title u snippet pdf_links)
      from cap[OF this] have "\<not> length pdf_links > 10" by simp
      with Some Tuple5 show ?thesis by (simp add: search_command_def)
    qed
  qed
  with cap show ?thesis by blast
qed

lemma seven_pdf_search:
  "fst (search_whatdotheyknow seven_pdf_env ''police'') =
     Tuple5 True ''My FOI Request'' ''https://www.whatdotheyknow.com/request/foo''
       ''My FOI Requestto Cambridge'' (take 5 (candidates seven_pdf_page))"
  by code_simp

theorem note_never_shown_witness:
  "fst (search_whatdotheyknow seven_pdf_env ''police'') =
     Tuple5 True ''My FOI Request'' ''https://www.whatdotheyknow.com/request/foo''
       ''My FOI Requestto Cambridge'' (take 5 (candidates seven_pdf_page)) \<and>
   length (take 5 (candidates seven_pdf_page)) = 5 \<and>
   \<not> shows_note (search_command seven_pdf_env (Some ''police''))"
  using note_never_shown[of seven_pdf_env "''police''" "Some ''police''"] seven_pdf_search
  by (simp add: seven_candidates)

section \<open>Failures of the result page\<close>

lemma page_fetch_fails_empty:
  "page_fetch_fails (page_fetch e u) \<Longrightarrow> fst (find_pdf_links_on_page e u) = []"
  by (cases "page_fetch e u" rule: page_fetch_fails.cases)
     (simp_all add: find_pdf_links_on_page_def)

lemma parse_and_extract_located:
  "locate_result soup = Some (title, u, snippet) \<Longrightarrow>
   fst (parse_and_extract e query (Inr soup)) =
     Tuple5 True title u snippet (fst (find_pdf_links_on_page e u))"
  by (auto simp: locate_result_def parse_and_extract_def case_prod_beta split: option.splits)

lemma search_located:
  assumes "fst (retry_loop e (search_page_url query) [0..<max_retries]) = Break (Inr soup)"
    and "locate_result soup = Some (title, u, snippet)"
  shows "fst (search_whatdotheyknow e query) =
           Tuple5 True title u snippet (fst (find_pdf_links_on_page e u))"
proof -
  obtain events where
    "retry_loop e (search_page_url query) [0..<max_retries] = (Break (Inr soup), events)"
    using assms(1) by (cases "retry_loop e (search_page_url query) [0..<max_retries]") simp
  then show ?thesis
    using parse_and_extract_located[OF assms(2), of e query]
    by (simp add: search_whatdotheyknow_def case_prod_beta)
qed

text \<open>
  C8. When the fetch of the result page fails (a status other than 200, or an exception
  from the fetch or from the parser), \<open>find_pdf_links_on_page\<close> returns the empty
  list. When the retry loop ends with a response whose document gives a result (title,
  URL, snippet), the query returns that result with \<open>success\<close> true and the list of
  \<open>find_pdf_links_on_page\<close>, whatever the fetch of the result page does: with the
  empty list when that fetch fails.
\<close>

theorem attachment_failure_not_fatal:
  "(page_fetch_fails (page_fetch e u) \<longrightarrow> fst (find_pdf_links_on_page e u) = []) \<and>
   (fst (retry_loop e (search_page_url query) [0..<max_retries]) = Break (Inr soup) \<and>
    locate_result soup = Some (title, u, snippet) \<longrightarrow>
      fst (search_whatdotheyknow e query) =
        Tuple5 True title u snippet (fst (find_pdf_links_on_page e u))) \<and>
   (fst (retry_loop e (search_page_url query) [0..<max_retries]) = Break (Inr soup) \<and>
    locate_result soup = Some (title, u, snippet) \<and>
    page_fetch_fails (page_fetch e u) \<longrightarrow>
      fst (search_whatdotheyknow e query) = Tuple5 True title u snippet [])"
  using page_fetch_fails_empty[of e u] search_located[of e query soup title u snippet]
  by auto

theorem attachment_failure_not_fatal_witness:
  "page_fetch_fails (page_fetch not_found_env ''https://www.whatdotheyknow.com/request/foo'') \<and>
   fst (retry_loop not_found_env (search_page_url ''police'') [0..<max_retries]) =
     Break (Inr search_results_page) \<and>
   locate_result search_results_page =
     Some (''My FOI Request'', ''https://www.whatdotheyknow.com/request/foo'',
           ''My FOI Requestto Cambridge'') \<and>
   fst (search_whatdotheyknow not_found_env ''police'') =
     Tuple5 True ''My FOI Request'' ''https://www.whatdotheyknow.com/request/foo''
       ''My FOI Requestto Cambridge'' [] \<and>
   page_fetch_fails (page_fetch page_timeout_env ''https://www.whatdotheyknow.com/request/foo'') \<and>
   fst (retry_loop page_timeout_env (search_page_url ''police'') [0..<max_retries]) =
     Break (Inr search_results_page) \<and>
   fst (search_whatdotheyknow page_timeout_env ''police'') =
     Tuple5 True ''My FOI Request'' ''https://www.whatdotheyknow.com/request/foo''
       ''My FOI Requestto Cambridge'' []"
proof -
  have fails:
    "page_fetch_fails (page_fetch not_found_env ''https://www.whatdotheyknow.com/request/foo'')"
    "page_fetch_fails (page_fetch page_timeout_env ''https://www.whatdotheyknow.com/request/foo'')"
    by (simp_all add: not_found_env_def page_timeout_env_def)
  have loop:
    "fst (retry_loop not_found_env (search_page_url ''police'') [0..<max_retries]) =
       Break (Inr search_results_page)"
    "fst (retry_loop page_timeout_env (search_page_url ''police'') [0..<max_retries]) =
       Break (Inr search_results_page)"
    by code_simp+
  have located:
    "locate_result search_results_page =
       Some (''My FOI Request'', ''https://www.whatdotheyknow.com/request/foo'',
             ''My FOI Requestto Cambridge'')"
    by code_simp
  from fails loop located
    attachment_failure_not_fatal[of not_found_env
      "''https://www.whatdotheyknow.com/request/foo''" "''police''" search_results_page
      "''My FOI Request''" "''My FOI Requestto Cambridge''"]
    attachment_failure_not_fatal[of page_timeout_env
      "''https://www.whatdotheyknow.com/request/foo''" "''police''" search_results_page
      "''My FOI Request''" "''My FOI Requestto Cambridge''"]
  show ?thesis by blast
qed

section \<open>The rendering of an attachment as HTML\<close>

lemma collect_pdf_links_filter:
  "collect_pdf_links pdf_links links =
   collect_pdf_links pdf_links (filter (\<lambda>link. link_pdf_info link \<noteq> None) links)"
  by (induction links arbitrary: pdf_links) (auto split: option.splits)

lemma report_href:
  "endswith (lower ''/response/1/attach/2/report.pdf'') ''.pdf''"
  "hd (split (last (split ''/response/1/attach/2/report.pdf'' (CHR ''/''))) (CHR ''?'')) =
     ''report.pdf''"
  "full_pdf_url ''/response/1/attach/2/report.pdf'' =
     ''https://www.whatdotheyknow.com/response/1/attach/2/report.pdf''"
  "endswith (lower ''/response/1/attach/html/2/report.pdf'') ''.pdf''"
  "hd (split (last (split ''/response/1/attach/html/2/report.pdf'' (CHR ''/''))) (CHR ''?'')) =
     ''report.pdf''"
  by code_simp+

lemma report_link:
  "get (fst link) ''href'' = Some ''/response/1/attach/2/report.pdf'' \<Longrightarrow>
   \<exists>sz. link_pdf_info link =
      Some \<lparr>name = ''report.pdf'',
            url = ''https://www.whatdotheyknow.com/response/1/attach/2/report.pdf'',
            size_info = sz\<rparr>"
  by (simp add: link_pdf_info_def detect_pdf_def make_pdf_info_def report_href Let_def)

lemma html_report_link:
  "get (fst link) ''href'' = Some ''/response/1/attach/html/2/report.pdf'' \<Longrightarrow>
   \<exists>info. link_pdf_info link = Some info \<and> name info = ''report.pdf''"
  by (simp add: link_pdf_info_def detect_pdf_def make_pdf_info_def report_href Let_def)

text \<open>
  C3. On a result page whose PDF links are a link to
  \<open>/response/1/attach/2/report.pdf\<close> followed by a link to
  \<open>/response/1/attach/html/2/report.pdf\<close>, whatever their texts and their
  surroundings, the attachment list has exactly one entry, named \<open>report.pdf\<close>, and
  its URL is the first link's, made absolute; and this list is what
  \<open>find_pdf_links_on_page\<close> returns when the page is fetched with the status 200.
\<close>

theorem html_duplicate_excluded:
  assumes "filter (\<lambda>link. link_pdf_info link \<noteq> None) (all_links soup) = [first, second]"
    and "get (fst first) ''href'' = Some ''/response/1/attach/2/report.pdf''"
    and "get (fst second) ''href'' = Some ''/response/1/attach/html/2/report.pdf''"
  shows "\<exists>sz. pdf_links_of_page soup =
           [\<lparr>name = ''report.pdf'',
             url = ''https://www.whatdotheyknow.com/response/1/attach/2/report.pdf'',
             size_info = sz\<rparr>] \<and>
           (\<forall>e page_url reason.
              page_fetch e page_url = Response 200 reason (Inr soup) \<longrightarrow>
              fst (find_pdf_links_on_page e page_url) =
                [\<lparr>name = ''report.pdf'',
                  url = ''https://www.whatdotheyknow.com/response/1/attach/2/report.pdf'',
                  size_info = sz\<rparr>])"
proof -
  from report_link[OF assms(2)] obtain sz where first:
    "link_pdf_info first =
       Some \<lparr>name = ''report.pdf'',
             url = ''https://www.whatdotheyknow.com/response/1/attach/2/report.pdf'',
             size_info = sz\<rparr>"
    by blast
  from html_report_link[OF assms(3)] obtain info where second:
    "link_pdf_info second = Some info" "name info = ''report.pdf''"
    by blast
  have "collect_pdf_links [] (all_links soup) = collect_pdf_links [] [first, second]"
    using collect_pdf_links_filter[of "[]" "all_links soup"] assms(1) by simp
  with first second have "pdf_links_of_page soup =
      [\<lparr>name = ''report.pdf'',
        url = ''https://www.whatdotheyknow.com/response/1/attach/2/report.pdf'',
        size_info = sz\<rparr>]"
    by (simp add: pdf_links_of_page_def duplicate_def)
  then show ?thesis
    using find_pdf_links_on_page_fetched by auto
qed

theorem html_duplicate_excluded_witness:
  "filter (\<lambda>link. link_pdf_info link \<noteq> None) (all_links report_page) =
     [report_first, report_second] \<and>
   get (fst report_first) ''href'' = Some ''/response/1/attach/2/report.pdf'' \<and>
   get (fst report_second) ''href'' = Some ''/response/1/attach/html/2/report.pdf'' \<and>
   pdf_links_of_page report_page =
     [\<lparr>name = ''report.pdf'',
       url = ''https://www.whatdotheyknow.com/response/1/attach/2/report.pdf'',
       size_info = ''175 KB''\<rparr>]"
proof -
  have links:
    "filter (\<lambda>link. link_pdf_info link \<noteq> None) (all_links report_page) =
       [report_first, report_second]"
    by code_simp
  have first: "get (fst report_first) ''href'' = Some ''/response/1/attach/2/report.pdf''"
    by (simp add: report_first_def)
  have second: "get (fst report_second) ''href'' = Some ''/response/1/attach/html/2/report.pdf''"
    by (simp add: report_second_def)
  have size: "map size_info (pdf_links_of_page report_page) = [''175 KB'']"
    by code_simp
  from html_duplicate_excluded[OF links first second] obtain sz where
    "pdf_links_of_page report_page =
       [\<lparr>name = ''report.pdf'',
         url = ''https://www.whatdotheyknow.com/response/1/attach/2/report.pdf'',
         size_info = sz\<rparr>]"
    by blast
  with links first second size show ?thesis by simp
qed

section \<open>Retries\<close>

lemma range_max_retries: "[0..<max_retries] = [0, 1, 2]"
  by code_simp

lemma exhausted_reasons:
  "mentions ''WhatDoTheyKnow.com is currently under heavy load or maintenance. Please try again in a few minutes.''
     ''heavy load or maintenance''"
  "mentions ''Rate limited by WhatDoTheyKnow.com. Please wait a moment and try again.''
     ''rate limited''"
  by code_simp+

text \<open>
  C2. When every attempt to get the search page is answered with the status 503, the
  function makes exactly \<open>max_retries\<close> requests, three: the first at once, the second
  after a backoff sleep of 2 seconds and the third after one of 4 seconds (each plus
  the random part). It then returns \<open>success\<close> false with a reason that mentions
  "heavy load or maintenance". With the status 429 it does the same, and the reason
  mentions "rate limited" (with a capital R in the text returned).
\<close>

theorem retries_exhausted:
  assumes "\<forall>attempt<max_retries. \<exists>reason body.
             search_fetch e attempt = Response status_code reason body"
  shows "(status_code = 503 \<longrightarrow>
            (\<exists>reason. search_whatdotheyknow e query =
               (Tuple4 False [] [] reason,
                [Get (search_page_url query), Sleep (2 ^ 1), Get (search_page_url query),
                 Sleep (2 ^ 2), Get (search_page_url query)]) \<and>
               mentions reason ''heavy load or maintenance'')) \<and>
         (status_code = 429 \<longrightarrow>
            (\<exists>reason. search_whatdotheyknow e query =
               (Tuple4 False [] [] reason,
                [Get (search_page_url query), Sleep (2 ^ 1), Get (search_page_url query),
                 Sleep (2 ^ 2), Get (search_page_url query)]) \<and>
               mentions reason ''rate limited'')) \<and>
         (status_code = 503 \<or> status_code = 429 \<longrightarrow>
            length (filter is_request (snd (search_whatdotheyknow e query))) = max_retries)"
proof -
  have every: "\<exists>reason body. search_fetch e attempt = Response status_code reason body"
    if "attempt < 3" for attempt
    using assms that by (simp add: max_retries_def)
  obtain r0 b0 where first: "search_fetch e 0 = Response status_code r0 b0"
    using every[of 0] by auto
  obtain r1 b1 where second: "search_fetch e 1 = Response status_code r1 b1"
    using every[of 1] by auto
  obtain r2 b2 where third: "search_fetch e 2 = Response status_code r2 b2"
    using every[of 2] by auto
  note fetched = first second third
  have busy: "search_whatdotheyknow e query =
      (Tuple4 False [] []
         ''WhatDoTheyKnow.com is currently under heavy load or maintenance. Please try again in a few minutes.'',
       [Get (search_page_url query), Sleep (2 ^ 1), Get (search_page_url query),
        Sleep (2 ^ 2), Get (search_page_url query)])"
    if "status_code = 503"
  proof -
    have loop: "retry_loop e (search_page_url query) [0, 1, 2] =
            (Return (Tuple4 False [] []
               ''WhatDoTheyKnow.com is currently under heavy load or maintenance. Please try again in a few minutes.''),
             [Get (search_page_url query), Sleep (2 ^ 1), Get (search_page_url query),
              Sleep (2 ^ 2), Get (search_page_url query)])"
      using fetched that by (simp add: max_retries_def Let_def)
    show ?thesis
      unfolding search_whatdotheyknow_def range_max_retries Let_def loop by simp
  qed
  have limited: "search_whatdotheyknow e query =
      (Tuple4 False [] []
         ''Rate limited by WhatDoTheyKnow.com. Please wait a moment and try again.'',
       [Get (search_page_url query), Sleep (2 ^ 1), Get (search_page_url query),
        Sleep (2 ^ 2), Get (search_page_url query)])"
    if "status_code = 429"
  proof -
    have loop: "retry_loop e (search_page_url query) [0, 1, 2] =
            (Return (Tuple4 False [] []
               ''Rate limited by WhatDoTheyKnow.com. Please wait a moment and try again.''),
             [Get (search_page_url query), Sleep (2 ^ 1), Get (search_page_url query),
              Sleep (2 ^ 2), Get (search_page_url query)])"
      using fetched that by (simp add: max_retries_def Let_def)
    show ?thesis
      unfolding search_whatdotheyknow_def range_max_retries Let_def loop by simp
  qed
  have count: "length (filter is_request (snd (search_whatdotheyknow e query))) = max_retries"
    if "status_code = 503 \<or> status_code = 429"
    using that busy limited by (auto simp: max_retries_def)
  from busy limited count exhausted_reasons show ?thesis
    by blast
qed

theorem retries_exhausted_witness:
  "search_fetch busy_env 0 = Response 503 ''Service Unavailable'' (Inr (Tag ''[document]'' [] [])) \<and>
   search_fetch busy_env 1 = Response 503 ''Service Unavailable'' (Inr (Tag ''[document]'' [] [])) \<and>
   search_fetch busy_env 2 = Response 503 ''Service Unavailable'' (Inr (Tag ''[document]'' [] [])) \<and>
   (\<exists>reason. search_whatdotheyknow busy_env ''police'' =
      (Tuple4 False [] [] reason,
       [Get (search_page_url ''police''), Sleep (2 ^ 1), Get (search_page_url ''police''),
        Sleep (2 ^ 2), Get (search_page_url ''police'')]) \<and>
      mentions reason ''heavy load or maintenance'') \<and>
   length (filter is_request (snd (search_whatdotheyknow busy_env ''police''))) = max_retries \<and>
   search_fetch rate_limited_env 2 =
     Response 429 ''Too Many Requests'' (Inr (Tag ''[document]'' [] [])) \<and>
   (\<exists>reason. search_whatdotheyknow rate_limited_env ''police'' =
      (Tuple4 False [] [] reason,
       [Get (search_page_url ''police''), Sleep (2 ^ 1), Get (search_page_url ''police''),
        Sleep (2 ^ 2), Get (search_page_url ''police'')]) \<and>
      mentions reason ''rate limited'')"
proof -
  have busy: "\<forall>attempt<max_retries. \<exists>reason body.
                search_fetch busy_env attempt = Response 503 reason body"
    by (simp add: busy_env_def)
  have limited: "\<forall>attempt<max_retries. \<exists>reason body.
                   search_fetch rate_limited_env attempt = Response 429 reason body"
    by (simp add: rate_limited_env_def)
  from retries_exhausted[OF busy, of "''police''"] retries_exhausted[OF limited, of "''police''"]
  show ?thesis
    by (simp add: busy_env_def rate_limited_env_def)
qed

section \<open>Sizes\<close>

lemma find_size_no_match:
  "\<forall>pattern\<in>set patterns. re_search pattern container_text = None \<Longrightarrow>
   find_size patterns container_text = ''Size unknown''"
  by (induction patterns) simp_all

lemma size_tokens:
  "find_size size_patterns ''9.5M'' = ''9.5 MB''"
  "find_size size_patterns ''175K'' = ''175 KB''"
  "find_size size_patterns ''2G'' = ''2 GB''"
  "find_size size_patterns ''Annual report (PDF, 9.5M)'' = ''9.5 MB''"
  "find_size size_patterns ''report.pdf 175K Download'' = ''175 KB''"
  by code_simp+

lemma normalize_bare:
  "normalize_unit ''K'' = ''KB''" "normalize_unit ''M'' = ''MB''" "normalize_unit ''G'' = ''GB''"
  by (simp_all add: normalize_unit_def)

text \<open>
  C9. The size of an attachment is what the size patterns find in the text of the
  link's nearest \<open>li\<close>, \<open>div\<close>, \<open>section\<close> or \<open>article\<close>, and \<open>Size unknown\<close>
  without such an ancestor. On the text \<open>9.5M\<close> they find \<open>9.5 MB\<close>, on \<open>175K\<close>
  they find \<open>175 KB\<close> and on \<open>2G\<close> they find \<open>2 GB\<close>, and so they do on these
  tokens inside a sentence: the bare units K, M and G become KB, MB and GB. Whatever the
  first pattern matches in a text, the size is the number matched, a space and the
  normalised unit. On a text that neither pattern matches the size is
  \<open>Size unknown\<close>.
\<close>

theorem size_inference:
  "size_info (make_pdf_info link href pdf_name) =
     (case find_parent_named link [''li'', ''div'', ''section'', ''article''] of
        Some container \<Rightarrow> find_size size_patterns (get_text container)
      | None \<Rightarrow> ''Size unknown'') \<and>
   find_size size_patterns ''9.5M'' = ''9.5 MB'' \<and>
   find_size size_patterns ''175K'' = ''175 KB'' \<and>
   find_size size_patterns ''2G'' = ''2 GB'' \<and>
   find_size size_patterns ''Annual report (PDF, 9.5M)'' = ''9.5 MB'' \<and>
   find_size size_patterns ''report.pdf 175K Download'' = ''175 KB'' \<and>
   normalize_unit ''K'' = ''KB'' \<and> normalize_unit ''M'' = ''MB'' \<and>
   normalize_unit ''G'' = ''GB'' \<and>
   (\<forall>size_match. re_search (size_patterns ! 0) container_text = Some size_match \<longrightarrow>
      find_size size_patterns container_text =
        group size_match 1 @ '' '' @ normalize_unit (upper (group size_match 2))) \<and>
   ((\<forall>pattern\<in>set size_patterns. re_search pattern container_text = None) \<longrightarrow>
      find_size size_patterns container_text = ''Size unknown'')"
proof -
  have matched:
    "find_size size_patterns container_text =
       group size_match 1 @ '' '' @ normalize_unit (upper (group size_match 2))"
    if "re_search (size_patterns ! 0) container_text = Some size_match" for size_match
    using that by (simp add: size_patterns_def)
  have "size_info (make_pdf_info link href pdf_name) =
     (case find_parent_named link [''li'', ''div'', ''section'', ''article''] of
        Some container \<Rightarrow> find_size size_patterns (get_text container)
      | None \<Rightarrow> ''Size unknown'')"
    by (simp add: make_pdf_info_def Let_def)
  with matched find_size_no_match[of size_patterns container_text] size_tokens normalize_bare
  show ?thesis by blast
qed

theorem size_inference_witness:
  "re_search (size_patterns ! 0) ''Minutes'' = None \<and>
   re_search (size_patterns ! 1) ''Minutes'' = None \<and>
   size_info (make_pdf_info unsized_link ''/files/a.pdf'' ''a.pdf'') = ''Size unknown'' \<and>
   size_info (make_pdf_info sized_link ''/files/a.pdf'' ''a.pdf'') = ''175 KB''"
proof -
  have none:
    "re_search (size_patterns ! 0) ''Minutes'' = None"
    "re_search (size_patterns ! 1) ''Minutes'' = None"
    by code_simp+
  then have all: "\<forall>pattern\<in>set size_patterns. re_search pattern ''Minutes'' = None"
    by (simp add: size_patterns_def)
  have containers:
    "find_parent_named unsized_link [''li'', ''div'', ''section'', ''article''] =
       Some (Tag ''li'' [] [Tag ''a'' [(''href'', ''/files/a.pdf'')] [NavigableString ''Minutes'']])"
    "find_parent_named sized_link [''li'', ''div'', ''section'', ''article''] =
       Some (Tag ''li'' [] [Tag ''a'' [(''href'', ''/files/a.pdf'')] [], NavigableString ''175K''])"
    by code_simp+
  have texts:
    "get_text (Tag ''li'' [] [Tag ''a'' [(''href'', ''/files/a.pdf'')] [NavigableString ''Minutes'']]) =
       ''Minutes''"
    "get_text (Tag ''li'' [] [Tag ''a'' [(''href'', ''/files/a.pdf'')] [], NavigableString ''175K'']) =
       ''175K''"
    by code_simp+
  from size_inference[of unsized_link "''/files/a.pdf''" "''a.pdf''" "''Minutes''"]
    size_inference[of sized_link "''/files/a.pdf''" "''a.pdf''" "''Minutes''"]
    none all containers texts
  show ?thesis by simp
qed

section \<open>Snippets\<close>

lemma method1_snippet_length: "length (method1_snippet current) \<le> 303"
  by (simp add: method1_snippet_def Let_def split: option.split)

lemma method2_snippet_length: "length (method2_snippet first_link) \<le> 303"
  by (simp add: method2_snippet_def Let_def split: option.split)

lemma locate_result_snippet:
  "locate_result soup = Some (title, u, snippet) \<Longrightarrow>
   (\<exists>current. method1_link soup = Some current \<and> snippet = method1_snippet current) \<or>
   (\<exists>first_link. method2_link soup = Some first_link \<and> snippet = method2_snippet first_link)"
  by (auto simp: locate_result_def method1_def method2_def Let_def split: option.splits)

lemma long_page_method1:
  "method1 long_page =
     Some (replicate 301 (CHR ''a''), ''https://www.whatdotheyknow.com/request/foo'',
           replicate 300 (CHR ''a'') @ ''...'')"
proof -
  have heading:
    "contains ''14 FOI requests of Cambridge found'' ''FOI requests''"
    "contains ''14 FOI requests of Cambridge found'' ''of''"
    by code_simp+
  have strip: "strip (replicate 301 (CHR ''a'')) = replicate 301 (CHR ''a'')"
    by (simp add: strip_def isspace_def)
  show ?thesis
    by (simp add: method1_def method1_link_def method1_snippet_def long_page_def long_link_def
        foi_requests_heading_def request_link_def startswith_def get_text_strip_def strip
        heading site_def Let_def)
qed

text \<open>
  C4, first as the code has it. Method 1 on a page whose request link has a text of 301
  characters gives a snippet of 303 characters: 300 of the text and the three of the
  ellipsis. Method 2 on a page whose link stands in a paragraph of three characters
  appends the ellipsis to them; on a page whose link stands in a \<open>div\<close> with no text,
  its snippet is the ellipsis, not \<open>FOI request found\<close>.
\<close>

theorem snippet_longer_than_300:
  "method1 long_page =
     Some (replicate 301 (CHR ''a''), ''https://www.whatdotheyknow.com/request/foo'',
           replicate 300 (CHR ''a'') @ ''...'') \<and>
   length (replicate 300 (CHR ''a'') @ ''...'') = 303 \<and>
   \<not> length (replicate 300 (CHR ''a'') @ ''...'') \<le> 300 \<and>
   method2 short_fallback_page =
     Some (''Bar'', ''https://www.whatdotheyknow.com/request/bar'', ''Bar...'') \<and>
   method2 empty_fallback_page =
     Some ([], ''https://www.whatdotheyknow.com/request/bar'', ''...'')"
proof -
  have fallback:
    "method2 short_fallback_page =
       Some (''Bar'', ''https://www.whatdotheyknow.com/request/bar'', ''Bar...'')"
    "method2 empty_fallback_page =
       Some ([], ''https://www.whatdotheyknow.com/request/bar'', ''...'')"
    by code_simp+
  with long_page_method1 show ?thesis by simp
qed

text \<open>
  C4, amended. Every snippet of either method has at most 303 characters: at most 300
  of the container's text and the three of the ellipsis. The snippet of a located
  result is the snippet of one of the two methods. Method 1 appends the ellipsis only
  when the text of the link's parent has more than 300 characters, and gives a text of
  at most 300 characters as it is. Method 2 gives \<open>FOI request found\<close> when the link
  has no \<open>div\<close>, \<open>article\<close>, \<open>section\<close> or \<open>p\<close> around it.
\<close>

theorem snippet_bounds:
  "length (method1_snippet current) \<le> 303 \<and>
   length (method2_snippet first_link) \<le> 303 \<and>
   (locate_result soup = Some (title, u, snippet) \<longrightarrow> length snippet \<le> 303) \<and>
   (find_parent current = Some parent \<and> get_text_strip parent \<noteq> [] \<and>
    length (get_text_strip parent) \<le> 300 \<longrightarrow>
      method1_snippet current = get_text_strip parent) \<and>
   (find_parent current = Some parent \<and> length (get_text_strip parent) > 300 \<longrightarrow>
      method1_snippet current = take 300 (get_text_strip parent) @ ''...'') \<and>
   (find_parent_named first_link [''div'', ''article'', ''section'', ''p''] = None \<longrightarrow>
      method2_snippet first_link = ''FOI request found'')"
proof -
  have located: "length snippet \<le> 303" if "locate_result soup = Some (title, u, snippet)"
    using locate_result_snippet[OF that] method1_snippet_length method2_snippet_length
    by auto
  have short: "method1_snippet current = get_text_strip parent"
    if "find_parent current = Some parent" "get_text_strip parent \<noteq> []"
      "length (get_text_strip parent) \<le> 300"
    using that by (simp add: method1_snippet_def Let_def)
  have long: "method1_snippet current = take 300 (get_text_strip parent) @ ''...''"
    if "find_parent current = Some parent" "length (get_text_strip parent) > 300"
    using that by (simp add: method1_snippet_def Let_def)
  have bare: "method2_snippet first_link = ''FOI request found''"
    if "find_parent_named first_link [''div'', ''article'', ''section'', ''p''] = None"
    using that by (simp add: method2_snippet_def)
  from method1_snippet_length method2_snippet_length located short long bare
  show ?thesis by blast
qed

theorem snippet_bounds_witness:
  "method1_link search_results_page = Some short_current \<and>
   get_text_strip (Tag ''div'' []
      [Tag ''a'' [(''href'', ''/request/foo'')] [NavigableString ''My FOI Request''],
       NavigableString '' to Cambridge '']) = ''My FOI Requestto Cambridge'' \<and>
   method1_snippet short_current = ''My FOI Requestto Cambridge'' \<and>
   method1_link long_page = Some long_current \<and>
   method1_snippet long_current = replicate 300 (CHR ''a'') @ ''...'' \<and>
   method2_link bare_fallback_page = Some bare_first_link \<and>
   method2_snippet bare_first_link = ''FOI request found'' \<and>
   locate_result bare_fallback_page =
     Some (''Bar'', ''https://www.whatdotheyknow.com/request/bar'', ''FOI request found'') \<and>
   length ''FOI request found'' \<le> 303"
proof -
  have links:
    "method1_link search_results_page = Some short_current"
    "method2_link bare_fallback_page = Some bare_first_link"
    by code_simp+
  have heading:
    "contains ''14 FOI requests of Cambridge found'' ''FOI requests''"
    "contains ''14 FOI requests of Cambridge found'' ''of''"
    by code_simp+
  have long_link: "method1_link long_page = Some long_current"
    by (simp add: method1_link_def long_page_def long_link_def long_current_def
        foi_requests_heading_def request_link_def startswith_def heading)
  have short_parent:
    "find_parent short_current =
       Some (Tag ''div'' []
          [Tag ''a'' [(''href'', ''/request/foo'')] [NavigableString ''My FOI Request''],
           NavigableString '' to Cambridge ''])"
    by (simp add: short_current_def)
  have short_text:
    "get_text_strip (Tag ''div'' []
        [Tag ''a'' [(''href'', ''/request/foo'')] [NavigableString ''My FOI Request''],
         NavigableString '' to Cambridge '']) = ''My FOI Requestto Cambridge''"
    by code_simp
  have long_parent: "find_parent long_current = Some (Tag ''div'' [] [long_link])"
    by (simp add: long_current_def)
  have long_text: "get_text_strip (Tag ''div'' [] [long_link]) = replicate 301 (CHR ''a'')"
    by (simp add: long_link_def get_text_strip_def strip_def isspace_def)
  have bare_parent:
    "find_parent_named bare_first_link [''div'', ''article'', ''section'', ''p''] = None"
    by code_simp
  have bare_located:
    "locate_result bare_fallback_page =
       Some (''Bar'', ''https://www.whatdotheyknow.com/request/bar'', ''FOI request found'')"
    by code_simp
  have short: "method1_snippet short_current = ''My FOI Requestto Cambridge''"
    using snippet_bounds[of short_current bare_first_link bare_fallback_page "''Bar''"
        "''https://www.whatdotheyknow.com/request/bar''" "''FOI request found''"
        "Tag ''div'' []
          [Tag ''a'' [(''href'', ''/request/foo'')] [NavigableString ''My FOI Request''],
           NavigableString '' to Cambridge '']"]
      short_parent short_text
    by simp
  have long: "method1_snippet long_current = replicate 300 (CHR ''a'') @ ''...''"
    using snippet_bounds[of long_current bare_first_link bare_fallback_page "''Bar''"
        "''https://www.whatdotheyknow.com/request/bar''" "''FOI request found''"
        "Tag ''div'' [] [long_link]"]
      long_parent long_text
    by simp
  have bare: "method2_snippet bare_first_link = ''FOI request found'' \<and>
              length ''FOI request found'' \<le> 303"
    using snippet_bounds[of long_current bare_first_link bare_fallback_page "''Bar''"
        "''https://www.whatdotheyknow.com/request/bar''" "''FOI request found''"
        "Tag ''div'' [] [long_link]"]
      bare_parent bare_located
    by simp
  from links long_link short_text short long bare bare_located show ?thesis
    by simp
qed

section \<open>The shape of a failure\<close>

text \<open>
  C1, as the code has it. When the search page answers every attempt with the status
  503, or with 429, or every attempt times out, \<open>search_whatdotheyknow\<close> returns four
  values, not five: no list of attachments. The command that unpacks five values then
  reports an unexpected error instead of the reason.
\<close>

theorem exhaustion_returns_four_values:
  "fst (search_whatdotheyknow busy_env ''police'') =
     Tuple4 False [] []
       ''WhatDoTheyKnow.com is currently under heavy load or maintenance. Please try again in a few minutes.'' \<and>
   fst (search_whatdotheyknow rate_limited_env ''police'') =
     Tuple4 False [] []
       ''Rate limited by WhatDoTheyKnow.com. Please wait a moment and try again.'' \<and>
   fst (search_whatdotheyknow timeout_env ''police'') =
     Tuple4 False [] [] ''Connection failed: Read timed out.'' \<and>
   search_command busy_env (Some ''police'') =
     UnexpectedError ''not enough values to unpack (expected 5, got 4)''"
  by code_simp

section \<open>Absolute URLs\<close>

text \<open>
  What holds of every URL returned: the URL of a located result starts with the site,
  and the URL of an attachment starts with the site unless the link's \<open>href\<close> starts
  with \<open>http\<close>, in which case it is the \<open>href\<close>.
\<close>

lemma located_url_starts_with_site:
  "locate_result soup = Some (title, u, snippet) \<Longrightarrow> startswith u site"
  by (auto simp: locate_result_def method1_def method2_def Let_def startswith_def
      split: option.splits)

lemma full_pdf_url_cases:
  "startswith (full_pdf_url href) site \<or> (startswith href ''http'' \<and> full_pdf_url href = href)"
  by (simp add: full_pdf_url_def startswith_def)

text \<open>
  C6, as the code has it. A link of a result page to \<open>httpdocs/report.pdf\<close>, a
  relative path, is detected as a PDF, and its \<open>href\<close> is taken for the URL unchanged
  because it starts with \<open>http\<close>: the URL of the attachment returned does not start
  with a scheme.
\<close>

theorem relative_href_kept:
  "pdf_links_of_page relative_http_page =
     [\<lparr>name = ''report.pdf'', url = ''httpdocs/report.pdf'', size_info = ''Size unknown''\<rparr>] \<and>
   fst (search_whatdotheyknow relative_http_env ''police'') =
     Tuple5 True ''My FOI Request'' ''https://www.whatdotheyknow.com/request/foo''
       ''My FOI Requestto Cambridge''
       [\<lparr>name = ''report.pdf'', url = ''httpdocs/report.pdf'', size_info = ''Size unknown''\<rparr>] \<and>
   \<not> starts_with_scheme ''httpdocs/report.pdf'' \<and>
   starts_with_scheme ''https://www.whatdotheyknow.com/request/foo''"
  by code_simp


end
